theory Spec2Isabelle
  imports Complex_Main "HOL-Library.Sublist"
begin

section \<open>Python strings\<close>

text \<open>
  A Python \<^verbatim>\<open>str\<close> is a sequence of Unicode code points and \<^verbatim>\<open>len\<close> counts code
  points, so a string is a list of natural numbers. The status messages of \<^verbatim>\<open>UI.py\<close>
  start with pictographs far beyond Latin-1, which is why \<^typ>\<open>char\<close> is not used.
  \<open>lit\<close> turns an ASCII literal into such a string.
\<close>

type_synonym pystr = "nat list"

abbreviation lit :: "string \<Rightarrow> pystr" where
  "lit s \<equiv> map of_char s"

text \<open>The code points for which \<^verbatim>\<open>str.isspace\<close> holds; \<^verbatim>\<open>strip()\<close> and \<^verbatim>\<open>split()\<close>
  without arguments use the same set.\<close>

definition isspace :: "nat \<Rightarrow> bool" where
  "isspace c \<longleftrightarrow>
     (9 \<le> c \<and> c \<le> 13) \<or> (28 \<le> c \<and> c \<le> 32) \<or> c = 133 \<or> c = 160 \<or> c = 5760 \<or>
     (8192 \<le> c \<and> c \<le> 8202) \<or> c = 8232 \<or> c = 8233 \<or> c = 8239 \<or> c = 8287 \<or> c = 12288"

definition strip :: "pystr \<Rightarrow> pystr" where
  "strip s = rev (dropWhile isspace (rev (dropWhile isspace s)))"

text \<open>\<^verbatim>\<open>s.split()\<close>: the maximal runs of non-whitespace code points, in order. The first
  argument is the word being read.\<close>

fun split_from :: "pystr \<Rightarrow> pystr \<Rightarrow> pystr list" where
  "split_from w [] = (if w = [] then [] else [w])"
| "split_from w (c # cs) =
     (if isspace c then (if w = [] then split_from [] cs else w # split_from [] cs)
      else split_from (w @ [c]) cs)"

definition split :: "pystr \<Rightarrow> pystr list" where
  "split s = split_from [] s"

text \<open>\<^verbatim>\<open>sep.join(parts)\<close>.\<close>

fun join :: "pystr \<Rightarrow> pystr list \<Rightarrow> pystr" where
  "join sep [] = []"
| "join sep [p] = p"
| "join sep (p # q # ps) = p @ sep @ join sep (q # ps)"

text \<open>\<^verbatim>\<open>str(n)\<close> and \<^verbatim>\<open>f"{n}"\<close> for an integer that is never negative: its decimal digits.\<close>

fun str_nat :: "nat \<Rightarrow> pystr" where
  "str_nat n = (if n < 10 then [48 + n] else str_nat (n div 10) @ [48 + n mod 10])"

declare str_nat.simps [simp del]

text \<open>\<^verbatim>\<open>xs[a:b]\<close> for integers \<open>a\<close> and \<open>b\<close>: a negative index counts from the end, and
  both are clipped to the sequence.\<close>

definition adjust_index :: "nat \<Rightarrow> int \<Rightarrow> nat" where
  "adjust_index n i = (if i < 0 then nat (max 0 (i + int n)) else min (nat i) n)"

definition py_slice :: "'a list \<Rightarrow> int \<Rightarrow> int \<Rightarrow> 'a list" where
  "py_slice xs a b =
     (let lo = adjust_index (length xs) a; hi = adjust_index (length xs) b
      in take (hi - lo) (drop lo xs))"

abbreviation nl :: pystr where
  "nl \<equiv> [10]"

section \<open>Chunking\<close>

text \<open>A chunk is the dictionary \<^verbatim>\<open>{"id": ..., "content": ...}\<close>.\<close>

record chunk =
  chunk_id :: pystr
  chunk_content :: pystr

text \<open>
  The \<^verbatim>\<open>while start < len(text)\<close> loop of \<^verbatim>\<open>chunk_text\<close>, with its three variables
  \<open>start\<close>, \<open>i\<close> and \<open>chunks\<close>; \<open>sz\<close> is the parameter \<^verbatim>\<open>size\<close>. \<open>sz\<close> and
  \<open>overlap\<close> are Python integers, so the new \<open>start\<close> may be no larger than the old
  one; the loop then does not end, which is the value \<open>None\<close>.
\<close>

partial_function (option) chunk_loop ::
  "pystr \<Rightarrow> int \<Rightarrow> int \<Rightarrow> int \<Rightarrow> nat \<Rightarrow> chunk list \<Rightarrow> chunk list option" where
  [code]: "chunk_loop text sz overlap start i chunks =
     (if start < int (length text) then
        chunk_loop text sz overlap (start + sz - overlap) (i + 1)
          (chunks @ [\<lparr>chunk_id = lit ''chunk_'' @ str_nat i,
                      chunk_content = py_slice text start (start + sz)\<rparr>])
      else Some chunks)"

definition chunk_text :: "pystr \<Rightarrow> int \<Rightarrow> int \<Rightarrow> chunk list option" where
  "chunk_text text sz overlap = chunk_loop text sz overlap 0 0 []"

section \<open>External collaborators\<close>

text \<open>An exception, with the text \<^verbatim>\<open>str(e)\<close> gives for it.\<close>

datatype exn = Exception pystr

fun str_exn :: "exn \<Rightarrow> pystr" where
  "str_exn (Exception m) = m"

text \<open>How a function or a generator ends: it returns a value or an exception leaves it.\<close>

datatype 'a ending = Returned 'a | Raised exn

text \<open>
  What \<^verbatim>\<open>pdfplumber\<close> makes of an uploaded file: opening it fails, or it has pages;
  \<^verbatim>\<open>extract_text()\<close> of a page gives a string, gives \<^verbatim>\<open>None\<close>, or fails.
\<close>

datatype page = Page "pystr option" | PageFails

datatype pdf = OpenFails | Pages "page list"

text \<open>
  The hosted services. Each call is written to a log; a service answers from the calls
  made before and its arguments, so its answers may change from call to call. \<open>'v\<close> is
  the type of embedding vectors.
  \<^item> \<open>embeddings_create\<close>: \<^verbatim>\<open>openai_client.embeddings.create(...).data[0].embedding\<close>;
  \<^item> \<open>upsert_execute\<close>: \<^verbatim>\<open>supabase.table("documents").upsert({...}).execute()\<close>, with
    the id, the content and the embedding of the record;
  \<^item> \<open>rpc_execute\<close>: \<^verbatim>\<open>supabase.rpc("match_documents", {...}).execute()\<close>, giving the
    \<^verbatim>\<open>content\<close> of every row of \<^verbatim>\<open>res.data\<close> (none when \<^verbatim>\<open>res.data\<close> is empty);
  \<^item> \<open>completions_create\<close>: \<^verbatim>\<open>openai_client.chat.completions.create(..., stream=True)\<close>
    for the user prompt, giving the \<^verbatim>\<open>delta.content\<close> of every streamed chunk and the
    exception that ends the stream, if one does.
\<close>

datatype 'v call =
  Embed pystr | Upsert pystr pystr 'v | Match 'v int | Complete pystr

type_synonym stream = "pystr option list \<times> exn option"

record 'v services =
  embeddings_create :: "'v call list \<Rightarrow> pystr \<Rightarrow> exn + 'v"
  upsert_execute :: "'v call list \<Rightarrow> pystr \<Rightarrow> pystr \<Rightarrow> 'v \<Rightarrow> exn option"
  rpc_execute :: "'v call list \<Rightarrow> 'v \<Rightarrow> int \<Rightarrow> exn + pystr list"
  completions_create :: "'v call list \<Rightarrow> pystr \<Rightarrow> exn + stream"

section \<open>Extraction, embedding, storage and search\<close>

text \<open>\<^verbatim>\<open>extract_pdf_text\<close>: the text of the pages read before the first failure, each
  followed by a newline; pages without text are skipped.\<close>

fun extract_pages :: "page list \<Rightarrow> pystr \<Rightarrow> pystr" where
  "extract_pages [] text = text"
| "extract_pages (Page t # ps) text =
     (case t of
        None \<Rightarrow> extract_pages ps text
      | Some s \<Rightarrow> if s = [] then extract_pages ps text else extract_pages ps (text @ s @ nl))"
| "extract_pages (PageFails # ps) text = text"

fun extract_pdf_text :: "pdf \<Rightarrow> pystr" where
  "extract_pdf_text OpenFails = []"
| "extract_pdf_text (Pages ps) = extract_pages ps []"

definition embed :: "'v services \<Rightarrow> 'v call list \<Rightarrow> pystr \<Rightarrow> (exn + 'v) \<times> 'v call list" where
  "embed svc calls text = (embeddings_create svc calls text, calls @ [Embed text])"

fun store_chunks :: "'v services \<Rightarrow> 'v call list \<Rightarrow> chunk list \<Rightarrow> exn option \<times> 'v call list" where
  "store_chunks svc calls [] = (None, calls)"
| "store_chunks svc calls (c # cs) =
     (case embed svc calls (chunk_content c) of
        (Inl e, calls1) \<Rightarrow> (Some e, calls1)
      | (Inr v, calls1) \<Rightarrow>
          (case upsert_execute svc calls1 (chunk_id c) (chunk_content c) v of
             Some e \<Rightarrow> (Some e, calls1 @ [Upsert (chunk_id c) (chunk_content c) v])
           | None \<Rightarrow> store_chunks svc (calls1 @ [Upsert (chunk_id c) (chunk_content c) v]) cs))"

definition search_supabase ::
  "'v services \<Rightarrow> 'v call list \<Rightarrow> pystr \<Rightarrow> int \<Rightarrow> (exn + pystr list) \<times> 'v call list" where
  "search_supabase svc calls query k =
     (case embed svc calls query of
        (Inl e, calls1) \<Rightarrow> (Inl e, calls1)
      | (Inr emb, calls1) \<Rightarrow> (rpc_execute svc calls1 emb k, calls1 @ [Match emb k]))"

section \<open>Handbook synthesis\<close>

definition handbook_prompt :: "pystr \<Rightarrow> pystr \<Rightarrow> nat \<Rightarrow> pystr" where
  "handbook_prompt topic context sec =
     nl @ lit ''You are writing a professional technical handbook.'' @ nl @ nl @
     lit ''Topic: '' @ topic @ nl @ nl @
     lit ''Context:'' @ nl @ context @ nl @ nl @
     lit ''Write SECTION '' @ str_nat sec @ lit ''.'' @ nl @
     lit ''- Clear headings'' @ nl @
     lit ''- Detailed explanation'' @ nl @
     lit ''- No repetition'' @ nl"

text \<open>The local variables of \<^verbatim>\<open>generate_handbook_stream\<close> (\<open>section_no\<close> is the
  variable \<^verbatim>\<open>section\<close>), and in \<open>emitted\<close> the values it has yielded so far.\<close>

record synthesis =
  section_no :: nat
  document_parts :: "pystr list"
  total_words :: nat
  section_text :: pystr
  emitted :: "pystr list"

definition finished_marker :: pystr where
  "finished_marker = nl @ nl @ lit ''**Handbook generation finished.**''"

text \<open>
  The \<^verbatim>\<open>for chunk in stream\<close> loop, lines 131 to 144, with the body as it is indented in
  the source: the two \<^verbatim>\<open>if\<close> statements, the increment of \<^verbatim>\<open>section\<close> and the
  \<^verbatim>\<open>break\<close> all belong to the \<^verbatim>\<open>for\<close> loop and run once per streamed chunk. The
  result says whether the loop was left by \<^verbatim>\<open>break\<close>.
\<close>

fun stream_loop :: "pystr option list \<Rightarrow> synthesis \<Rightarrow> synthesis \<times> bool" where
  "stream_loop [] s = (s, False)"
| "stream_loop (delta # rest) s =
     (let s1 = (case delta of
                  None \<Rightarrow> s
                | Some content \<Rightarrow>
                    if content = [] then s
                    else s\<lparr>section_text := section_text s @ content,
                           emitted := emitted s @
                             [join (nl @ nl) (document_parts s @ [section_text s @ content])]\<rparr>);
          s2 = (if strip (section_text s1) = [] then s1
                else s1\<lparr>document_parts := document_parts s1 @ [strip (section_text s1)],
                         total_words := total_words s1 + length (split (section_text s1))\<rparr>);
          s3 = s2\<lparr>section_no := section_no s2 + 1\<rparr>
      in if 25 < section_no s3 then (s3, True) else stream_loop rest s3)"

text \<open>
  The \<^verbatim>\<open>while total_words < target_words\<close> loop, lines 115 to 146. The \<^verbatim>\<open>yield\<close> of
  line 146 is indented under the \<^verbatim>\<open>while\<close>, so it runs at the end of every iteration.
  An exception of a service, or one that ends the stream before a \<^verbatim>\<open>break\<close>, leaves the
  generator. A loop that never ends is \<open>None\<close>.
\<close>

partial_function (option) synthesis_loop ::
  "'v services \<Rightarrow> pystr \<Rightarrow> int \<Rightarrow> 'v call list \<Rightarrow> synthesis \<Rightarrow>
     (unit ending \<times> synthesis \<times> 'v call list) option" where
  [code]: "synthesis_loop svc topic target_words calls s =
     (if int (total_words s) < target_words then
        (case search_supabase svc calls topic 5 of
           (Inl e, calls1) \<Rightarrow> Some (Raised e, s, calls1)
         | (Inr results, calls1) \<Rightarrow>
             (case completions_create svc calls1
                     (handbook_prompt topic (join (nl @ nl) results) (section_no s)) of
                Inl e \<Rightarrow>
                  Some (Raised e, s,
                    calls1 @ [Complete (handbook_prompt topic (join (nl @ nl) results) (section_no s))])
              | Inr (deltas, failure) \<Rightarrow>
                  (case stream_loop deltas (s\<lparr>section_text := []\<rparr>) of
                     (s1, broke) \<Rightarrow>
                       (case (if broke then None else failure) of
                          Some e \<Rightarrow>
                            Some (Raised e, s1,
                              calls1 @ [Complete (handbook_prompt topic (join (nl @ nl) results) (section_no s))])
                        | None \<Rightarrow>
                            synthesis_loop svc topic target_words
                              (calls1 @ [Complete (handbook_prompt topic (join (nl @ nl) results) (section_no s))])
                              (s1\<lparr>emitted := emitted s1 @
                                    [join (nl @ nl) (document_parts s1) @ finished_marker]\<rparr>)))))
      else Some (Returned (), s, calls))"

definition initial_synthesis :: synthesis where
  "initial_synthesis =
     \<lparr>section_no = 1, document_parts = [], total_words = 0, section_text = [], emitted = []\<rparr>"

definition guidance :: pystr where
  "guidance = lit ''Please provide a meaningful topic after '' @ [39] @
     lit ''create a handbook'' @ [39]"

text \<open>\<^verbatim>\<open>generate_handbook_stream\<close>: how the generator ends, the values it yields and the
  log of service calls afterwards.\<close>

definition generate_handbook_stream ::
  "'v services \<Rightarrow> 'v call list \<Rightarrow> pystr \<Rightarrow> int \<Rightarrow> (unit ending \<times> pystr list \<times> 'v call list) option" where
  "generate_handbook_stream svc calls topic target_words =
     (if strip topic = [] then Some (Returned (), [guidance], calls)
      else
        (case synthesis_loop svc topic target_words calls initial_synthesis of
           None \<Rightarrow> None
         | Some (e, s, calls1) \<Rightarrow> Some (e, emitted s, calls1)))"

section \<open>Ingestion\<close>

text \<open>The module-level variables \<^verbatim>\<open>PDF_TEXT\<close> and \<^verbatim>\<open>CHUNKS\<close>, and the log of the calls
  made to the services.\<close>

record 'v state =
  PDF_TEXT :: pystr
  CHUNKS :: "chunk list"
  call_log :: "'v call list"

definition no_file_status :: pystr where
  "no_file_status = [10060] @ lit '' No file''"

definition no_text_status :: pystr where
  "no_text_status = [9888, 65039] @ lit '' No extractable text''"

definition processed_status :: "nat \<Rightarrow> pystr" where
  "processed_status n = [9989] @ lit '' PDF processed'' @ nl @ lit ''Chunks: '' @ str_nat n"

definition error_status :: "exn \<Rightarrow> pystr" where
  "error_status e = [10060] @ lit '' Error: '' @ str_exn e"

text \<open>
  \<^verbatim>\<open>upload_pdf\<close>: the pair (status, preview) it returns, and the state afterwards. The
  \<^verbatim>\<open>try\<close> turns every exception into an error status. \<^verbatim>\<open>CHUNKS[0]\<close> raises
  \<^verbatim>\<open>IndexError\<close> on an empty list. The result is \<open>None\<close> if \<^verbatim>\<open>chunk_text\<close> does not
  return.
\<close>

definition upload_pdf ::
  "'v services \<Rightarrow> 'v state \<Rightarrow> pdf option \<Rightarrow> ((pystr \<times> pystr) \<times> 'v state) option" where
  "upload_pdf svc st file =
     (case file of
        None \<Rightarrow> Some ((no_file_status, []), st)
      | Some f \<Rightarrow>
          (let st1 = st\<lparr>PDF_TEXT := extract_pdf_text f\<rparr> in
           if strip (PDF_TEXT st1) = [] then Some ((no_text_status, []), st1)
           else
             (case chunk_text (PDF_TEXT st1) 1000 200 of
                None \<Rightarrow> None
              | Some chunks \<Rightarrow>
                  (let st2 = st1\<lparr>CHUNKS := chunks\<rparr> in
                   case store_chunks svc (call_log st2) (CHUNKS st2) of
                     (Some e, calls1) \<Rightarrow> Some ((error_status e, []), st2\<lparr>call_log := calls1\<rparr>)
                   | (None, calls1) \<Rightarrow>
                       (case CHUNKS st2 of
                          [] \<Rightarrow>
                            Some ((error_status (Exception (lit ''list index out of range'')), []),
                              st2\<lparr>call_log := calls1\<rparr>)
                        | c # cs \<Rightarrow>
                            Some ((processed_status (length (CHUNKS st2)), take 1200 (chunk_content c)),
                              st2\<lparr>call_log := calls1\<rparr>))))))"

section \<open>Conversation\<close>

text \<open>A turn is the dictionary \<^verbatim>\<open>{"role": ..., "content": ...}\<close>.\<close>

record turn =
  role :: pystr
  content :: pystr

definition user :: "pystr \<Rightarrow> turn" where
  "user c = \<lparr>role = lit ''user'', content = c\<rparr>"

definition assistant :: "pystr \<Rightarrow> turn" where
  "assistant c = \<lparr>role = lit ''assistant'', content = c\<rparr>"

definition ask_topic :: pystr where
  "ask_topic = lit ''Please provide a topic for the handbook.''"

definition not_found :: pystr where
  "not_found = lit ''I couldn't find relevant information in the document.''"

definition thinking_msg :: "pystr \<Rightarrow> pystr" where
  "thinking_msg topic =
     [128214] @ lit '' Generating handbook on **'' @ topic @ lit ''** ...'' @ nl @ nl"

definition handbook_msg :: "pystr \<Rightarrow> pystr \<Rightarrow> pystr" where
  "handbook_msg topic partial =
     [128214] @ lit '' Handbook: **'' @ topic @ lit ''**'' @ nl @ nl @ partial"

text \<open>\<^verbatim>\<open>str.lower\<close> on strings of ASCII code points. The case table of Unicode is part of
  the Python runtime, so \<open>chat\<close> below takes \<^verbatim>\<open>str.lower\<close> as its first argument.\<close>

definition ascii_lower :: "pystr \<Rightarrow> pystr" where
  "ascii_lower s = map (\<lambda>c. if 65 \<le> c \<and> c \<le> 90 then c + 32 else c) s"

text \<open>
  \<^verbatim>\<open>chat\<close> contains \<^verbatim>\<open>yield\<close>, so calling it makes a generator: a \<^verbatim>\<open>return\<close> with a
  value ends the generator and yields nothing. The result is how the generator ends (with
  the value of its \<^verbatim>\<open>return\<close>, \<open>None\<close> for a bare one or the end of the body), the
  histories it yields, each as it is at the time of the \<^verbatim>\<open>yield\<close>, and the log of service
  calls afterwards. \<^verbatim>\<open>reply\<close> of line 195 is assigned and not used after. The result is
  \<open>None\<close> if the generator never ends.
\<close>

definition chat ::
  "(pystr \<Rightarrow> pystr) \<Rightarrow> 'v services \<Rightarrow> 'v call list \<Rightarrow> pystr \<Rightarrow> turn list \<Rightarrow>
     (turn list option ending \<times> turn list list \<times> 'v call list) option" where
  "chat lower svc calls message history =
     (if strip message = [] then Some (Returned (Some history), [], calls)
      else
        (let current_history = history @ [user message] in
         if prefix (lit ''create a handbook'') (lower message) then
           (let topic = strip (drop 15 message) in
            if topic = [] then
              Some (Returned (Some (current_history @ [assistant ask_topic])), [], calls)
            else
              (case generate_handbook_stream svc calls topic 3000 of
                 None \<Rightarrow> None
               | Some (e, partials, calls1) \<Rightarrow>
                   Some (case e of Returned u \<Rightarrow> Returned None | Raised x \<Rightarrow> Raised x,
                     (current_history @ [assistant (thinking_msg topic)]) #
                       map (\<lambda>partial. current_history @ [assistant (handbook_msg topic partial)])
                         partials,
                     calls1)))
         else
           (case search_supabase svc calls message 5 of
              (Inl e, calls1) \<Rightarrow> Some (Raised e, [], calls1)
            | (Inr results, calls1) \<Rightarrow>
                if results = [] then
                  (let reply = not_found in Some (Returned None, [], calls1))
                else
                  (let reply = join (nl @ nl) results in
                   Some (Returned None, [current_history @ [assistant reply]], calls1)))))"

section \<open>Reference notions for the theorems\<close>

text \<open>The \<open>i\<close>-th chunk as the specification describes it: the id \<^verbatim>\<open>chunk_<i>\<close> and the
  window \<^verbatim>\<open>text[start:start+size]\<close> at \<^verbatim>\<open>start = i * (size - overlap)\<close>.\<close>

definition window :: "pystr \<Rightarrow> int \<Rightarrow> int \<Rightarrow> nat \<Rightarrow> chunk" where
  "window text sz overlap i =
     \<lparr>chunk_id = lit ''chunk_'' @ str_nat i,
      chunk_content = py_slice text (int i * (sz - overlap)) (int i * (sz - overlap) + sz)\<rparr>"

text \<open>The chunk count in the specification's words:
  \<^verbatim>\<open>ceil(max(0, L - overlap) / (size - overlap))\<close>.\<close>

definition spec_chunk_count :: "nat \<Rightarrow> int \<Rightarrow> int \<Rightarrow> int" where
  "spec_chunk_count L sz overlap =
     \<lceil>real_of_int (max 0 (int L - overlap)) / real_of_int (sz - overlap)\<rceil>"

text \<open>
  Services for concrete runs: every call succeeds, the store matches no row
  (\<^verbatim>\<open>res.data\<close> is empty), and every completion streams the single chunk \<^verbatim>\<open>"w"\<close> and ends.
\<close>

definition one_word_services :: "unit services" where
  "one_word_services =
     \<lparr>embeddings_create = (\<lambda>calls text. Inr ()),
      upsert_execute = (\<lambda>calls i c v. None),
      rpc_execute = (\<lambda>calls v k. Inr []),
      completions_create = (\<lambda>calls prompt. Inr ([Some (lit ''w'')], None))\<rparr>"

section \<open>The chunking loop\<close>

text \<open>If the loop returns at all, it was not started at a non-positive offset of a
  non-empty text with a step \<open>sz - overlap\<close> that is not positive.\<close>

lemma chunk_loop_result_cond:
  assumes "chunk_loop t sz overlap start i chunks = Some y"
  shows "\<not> (sz \<le> overlap \<and> start \<le> 0 \<and> t \<noteq> [])"
proof -
  let ?P = "\<lambda>(t::pystr) (s::int) (ov::int) (st::int) (i::nat) (cs::chunk list) (y::chunk list).
    \<not> (s \<le> ov \<and> st \<le> 0 \<and> t \<noteq> [])"
  show ?thesis
  proof (rule chunk_loop.raw_induct [where P = ?P, OF _ assms], goal_cases)
    case (1 f t sz overlap start i chunks y)
    show ?case
    proof
      assume h: "sz \<le> overlap \<and> start \<le> 0 \<and> t \<noteq> []"
      then have "start < int (length t)" by (cases t) auto
      with 1(2) have "f t sz overlap (start + sz - overlap) (i + 1)
          (chunks @ [\<lparr>chunk_id = lit ''chunk_'' @ str_nat i,
                      chunk_content = py_slice t start (start + sz)\<rparr>]) = Some y"
        by simp
      from 1(1) [OF this] h show False by simp
    qed
  qed
qed

lemma chunk_loop_diverges:
  "t \<noteq> [] \<Longrightarrow> sz \<le> overlap \<Longrightarrow> start \<le> 0 \<Longrightarrow> chunk_loop t sz overlap start i chunks = None"
  using chunk_loop_result_cond [of t sz overlap start i chunks]
  by (cases "chunk_loop t sz overlap start i chunks") auto

text \<open>With a positive step, the loop started at \<open>start\<close> runs exactly \<open>k\<close> more times,
  where \<open>k\<close> is the least number of steps that reaches the end of the text.\<close>

lemma chunk_loop_steps:
  "overlap < sz \<Longrightarrow> start + (int k - 1) * (sz - overlap) < int (length t) \<Longrightarrow>
   int (length t) \<le> start + int k * (sz - overlap) \<Longrightarrow>
   chunk_loop t sz overlap start i chunks =
     Some (chunks @ map (\<lambda>j. \<lparr>chunk_id = lit ''chunk_'' @ str_nat (i + j),
        chunk_content =
          py_slice t (start + int j * (sz - overlap)) (start + int j * (sz - overlap) + sz)\<rparr>)
        [0..<k])"
proof (induction k arbitrary: start i chunks)
  case 0
  then show ?case by (subst chunk_loop.simps) simp
next
  case (Suc k)
  have lt: "start < int (length t)"
  proof -
    have "0 \<le> int k * (sz - overlap)" using Suc.prems(1) by simp
    then show ?thesis using Suc.prems(2) by simp
  qed
  have a: "(start + sz - overlap) + (int k - 1) * (sz - overlap) < int (length t)"
    using Suc.prems(2) by (simp add: algebra_simps)
  have b: "int (length t) \<le> (start + sz - overlap) + int k * (sz - overlap)"
    using Suc.prems(3) by (simp add: algebra_simps)
  have m: "map f [0..<Suc k] = f 0 # map (\<lambda>j. f (Suc j)) [0..<k]" for f :: "nat \<Rightarrow> chunk"
    by (simp only: upt_conv_Cons [OF zero_less_Suc] list.map map_Suc_upt [symmetric] map_map comp_def)
  show ?case
    apply (subst chunk_loop.simps)
    apply (simp only: lt if_True Suc.IH [OF Suc.prems(1) a b] m)
    apply (simp add: algebra_simps)
    done
qed

text \<open>Rounding a quotient up, written with integer division.\<close>

lemma ceil_div_bounds:
  fixes L d :: int
  assumes "0 < d"
  shows "(- (- L div d) - 1) * d < L" and "L \<le> - (- L div d) * d"
proof -
  define q where "q = - L div d"
  define m where "m = - L mod d"
  have "q * d + m = - L" unfolding q_def m_def by (rule div_mult_mod_eq)
  then have e: "L = - (q * d) - m" by linarith
  have r: "0 \<le> m" "m < d" using assms by (simp_all add: m_def)
  have "(- q - 1) * d = - (q * d) - d" by (simp add: algebra_simps)
  then show "(- (- L div d) - 1) * d < L" using e r unfolding q_def [symmetric] by linarith
  have "- q * d = - (q * d)" by simp
  then show "L \<le> - (- L div d) * d" using e r unfolding q_def [symmetric] by linarith
qed

lemma ceil_div_nonneg:
  fixes L d :: int
  assumes "0 < d" "0 \<le> L"
  shows "0 \<le> - (- L div d)"
  using assms div_nonpos_pos_le0 [of "- L" d] by simp

lemma ceil_div_zero_iff:
  fixes L d :: int
  assumes "0 < d" "0 \<le> L"
  shows "nat (- (- L div d)) = 0 \<longleftrightarrow> L = 0"
proof
  assume "nat (- (- L div d)) = 0"
  with ceil_div_nonneg [OF assms] have "- (- L div d) = 0" by simp
  with ceil_div_bounds(2) [OF assms(1), of L] have "L \<le> 0" by simp
  with assms(2) show "L = 0" by simp
next
  assume "L = 0"
  then show "nat (- (- L div d)) = 0" by simp
qed

lemma ceiling_as_div:
  "\<lceil>real n / real_of_int d\<rceil> = - (- int n div d)"
  using ceiling_divide_eq_div [of "int n" d] by simp

lemma chunk_text_eq:
  assumes "overlap < sz"
  shows "chunk_text t sz overlap =
     Some (map (window t sz overlap) [0..<nat (- (- int (length t) div (sz - overlap)))])"
proof -
  let ?d = "sz - overlap" and ?L = "int (length t)"
  let ?k = "nat (- (- ?L div ?d))"
  have d: "0 < ?d" using assms by simp
  have k: "int ?k = - (- ?L div ?d)" using ceil_div_nonneg [OF d, of ?L] by simp
  have a: "0 + (int ?k - 1) * ?d < ?L" unfolding k using ceil_div_bounds(1) [OF d, of ?L] by simp
  have b: "?L \<le> 0 + int ?k * ?d" unfolding k using ceil_div_bounds(2) [OF d, of ?L] by simp
  have w: "window t sz overlap = (\<lambda>j. \<lparr>chunk_id = lit ''chunk_'' @ str_nat (0 + j),
        chunk_content = py_slice t (0 + int j * (sz - overlap)) (0 + int j * (sz - overlap) + sz)\<rparr>)"
    by (rule ext) (simp add: window_def)
  show ?thesis
    unfolding chunk_text_def w using chunk_loop_steps [OF assms a b, of 0 "[]"]
    by simp
qed

lemma chunk_text_empty: "chunk_text [] sz overlap = Some []"
  unfolding chunk_text_def by (subst chunk_loop.simps) simp

text \<open>
  Claim C7. \<^verbatim>\<open>chunk_text("abcdefghij", size=4, overlap=1)\<close> returns the four chunks
  \<^verbatim>\<open>"abcd"\<close>, \<^verbatim>\<open>"defg"\<close>, \<^verbatim>\<open>"ghij"\<close>, \<^verbatim>\<open>"j"\<close> with the ids \<^verbatim>\<open>chunk_0\<close> to
  \<^verbatim>\<open>chunk_3\<close>. In general, whenever \<open>overlap < sz\<close>, chunk \<open>i\<close> has the id
  \<^verbatim>\<open>chunk_<i>\<close> for \<open>i = 0, 1, 2, ...\<close> and the content \<^verbatim>\<open>text[start:start+size]\<close>
  with \<open>start = i * (sz - overlap)\<close>, and the chunks are those whose \<open>start\<close> lies before
  the end of the text: there are \<open>\<lceil>len(text) / (sz - overlap)\<rceil>\<close> of them.
\<close>

theorem chunk_text_windows:
  "chunk_text (lit ''abcdefghij'') 4 1 = Some
     [\<lparr>chunk_id = lit ''chunk_0'', chunk_content = lit ''abcd''\<rparr>,
      \<lparr>chunk_id = lit ''chunk_1'', chunk_content = lit ''defg''\<rparr>,
      \<lparr>chunk_id = lit ''chunk_2'', chunk_content = lit ''ghij''\<rparr>,
      \<lparr>chunk_id = lit ''chunk_3'', chunk_content = lit ''j''\<rparr>] \<and>
   (overlap < sz \<longrightarrow>
      chunk_text t sz overlap =
        Some (map (window t sz overlap)
          [0..<nat \<lceil>real (length t) / real_of_int (sz - overlap)\<rceil>]))"
proof
  show "chunk_text (lit ''abcdefghij'') 4 1 = Some
     [\<lparr>chunk_id = lit ''chunk_0'', chunk_content = lit ''abcd''\<rparr>,
      \<lparr>chunk_id = lit ''chunk_1'', chunk_content = lit ''defg''\<rparr>,
      \<lparr>chunk_id = lit ''chunk_2'', chunk_content = lit ''ghij''\<rparr>,
      \<lparr>chunk_id = lit ''chunk_3'', chunk_content = lit ''j''\<rparr>]"
    by (simp add: chunk_text_def chunk_loop.simps py_slice_def adjust_index_def str_nat.simps)
  show "overlap < sz \<longrightarrow>
      chunk_text t sz overlap =
        Some (map (window t sz overlap)
          [0..<nat \<lceil>real (length t) / real_of_int (sz - overlap)\<rceil>])"
    unfolding ceiling_as_div by (simp add: chunk_text_eq)
qed

theorem chunk_text_windows_witness:
  "(0::int) < 3 \<and>
   chunk_text (lit ''abcdefg'') 3 0 = Some
     [\<lparr>chunk_id = lit ''chunk_0'', chunk_content = lit ''abc''\<rparr>,
      \<lparr>chunk_id = lit ''chunk_1'', chunk_content = lit ''def''\<rparr>,
      \<lparr>chunk_id = lit ''chunk_2'', chunk_content = lit ''g''\<rparr>]"
proof -
  have u: "[0..<3] = [0, 1, 2]" by code_simp
  show ?thesis
    using chunk_text_windows [of 0 3 "lit ''abcdefg''"]
    by (simp add: u window_def py_slice_def adjust_index_def str_nat.simps)
qed

text \<open>
  Claim C5, as stated: the number of chunks is
  \<^verbatim>\<open>ceil(max(0, L - overlap) / (size - overlap))\<close>. For the ten code points of
  \<^verbatim>\<open>"abcdefghij"\<close> with size 4 and overlap 1 that formula gives 3, and \<^verbatim>\<open>chunk_text\<close>
  returns 4 chunks.
\<close>

theorem chunk_count_spec_counterexample:
  "map_option length (chunk_text (lit ''abcdefghij'') 4 1) = Some 4 \<and>
   spec_chunk_count (length (lit ''abcdefghij'')) 4 1 = 3"
  by (simp add: chunk_text_def chunk_loop.simps spec_chunk_count_def)

text \<open>
  Claim C5, amended: for a text of length \<open>L\<close> and \<open>0 < sz\<close>, \<open>0 \<le> overlap < sz\<close>,
  \<^verbatim>\<open>chunk_text\<close> returns, and the number of its chunks is \<open>\<lceil>L / (sz - overlap)\<rceil>\<close>; the
  result is empty exactly for the empty text, so there is at least one chunk whenever
  \<open>L > 0\<close>.
\<close>

theorem chunk_count:
  assumes "0 < sz" and "0 \<le> overlap" and "overlap < sz"
  shows "map_option (\<lambda>cs. int (length cs)) (chunk_text t sz overlap) =
           Some \<lceil>real (length t) / real_of_int (sz - overlap)\<rceil> \<and>
         (chunk_text t sz overlap = Some [] \<longleftrightarrow> t = [])"
proof -
  have d: "0 < sz - overlap" using assms(3) by simp
  have nn: "0 \<le> - (- int (length t) div (sz - overlap))"
    using ceil_div_nonneg [OF d, of "int (length t)"] by simp
  have z: "nat (- (- int (length t) div (sz - overlap))) = 0 \<longleftrightarrow> t = []"
    using ceil_div_zero_iff [OF d, of "int (length t)"] by simp
  show ?thesis
    unfolding ceiling_as_div using nn z by (simp add: chunk_text_eq [OF assms(3)])
qed

theorem chunk_count_witness:
  "(0::int) < 4 \<and> (0::int) \<le> 1 \<and> (1::int) < 4 \<and>
   map_option (\<lambda>cs. int (length cs)) (chunk_text (lit ''abcdefghij'') 4 1) = Some 4 \<and>
   chunk_text (lit ''abcdefghij'') 4 1 \<noteq> Some []"
  using chunk_count [of 4 1 "lit ''abcdefghij''"] by simp

text \<open>
  Claim C4, as stated: \<^verbatim>\<open>chunk_text\<close> rejects every input with \<open>overlap \<ge> size\<close>. For
  the empty text with size 1 and overlap 1 it returns the empty list of chunks.
\<close>

theorem chunk_text_no_rejection_counterexample:
  "chunk_text (lit '''') 1 1 = Some []"
  unfolding chunk_text_def by (subst chunk_loop.simps) simp

text \<open>
  Claim C4, amended: \<^verbatim>\<open>chunk_text\<close> checks neither \<open>size\<close> nor \<open>overlap\<close> and has no
  statement that raises. It returns the empty list for the empty text, whatever \<open>size\<close>
  and \<open>overlap\<close> are, and it fails to return exactly when the text is not empty and
  \<open>overlap \<ge> size\<close>.
\<close>

theorem chunk_text_returns_iff:
  "chunk_text [] sz overlap = Some [] \<and>
   (chunk_text t sz overlap = None \<longleftrightarrow> t \<noteq> [] \<and> sz \<le> overlap)"
proof -
  have "chunk_text t sz overlap = None" if "t \<noteq> []" "sz \<le> overlap"
    unfolding chunk_text_def using that by (simp add: chunk_loop_diverges)
  moreover have "chunk_text t sz overlap \<noteq> None" if "t = [] \<or> overlap < sz"
    using that chunk_text_empty [of sz overlap] chunk_text_eq [of overlap sz t] by auto
  ultimately show ?thesis
    using chunk_text_empty [of sz overlap] by (cases "t = []"; cases "sz \<le> overlap") auto
qed

section \<open>Handbook synthesis\<close>

text \<open>
  Claim C8. For a topic that is empty or consists of whitespace only,
  \<^verbatim>\<open>generate_handbook_stream\<close> yields the guidance message and nothing else, and returns;
  the log of service calls is as it was, so no embedding, search or completion call is
  made.
\<close>

theorem blank_topic_guidance:
  "strip topic = [] \<Longrightarrow>
   generate_handbook_stream svc calls topic target_words = Some (Returned (), [guidance], calls)"
  by (simp add: generate_handbook_stream_def)

theorem blank_topic_guidance_witness:
  "strip (lit ''   '') = [] \<and>
   generate_handbook_stream one_word_services [] (lit ''   '') 3000 =
     Some (Returned (), [guidance], [])"
proof -
  have b: "strip (lit ''   '') = []" by (simp add: strip_def isspace_def)
  show ?thesis using b blank_topic_guidance [OF b, of one_word_services "[]" 3000] by simp
qed

text \<open>One iteration of the \<^verbatim>\<open>while\<close> loop when every completion streams the single
  chunk \<^verbatim>\<open>"w"\<close>: one more part, one more word, and two more yielded values.\<close>

lemma one_word_iteration:
  assumes "int (total_words s) < target_words"
  shows "synthesis_loop one_word_services topic target_words calls s =
     synthesis_loop one_word_services topic target_words
       (calls @ [Embed topic, Match () 5, Complete (handbook_prompt topic [] (section_no s))])
       \<lparr>section_no = section_no s + 1,
        document_parts = document_parts s @ [lit ''w''],
        total_words = total_words s + 1,
        section_text = lit ''w'',
        emitted = emitted s @
          [join (nl @ nl) (document_parts s @ [lit ''w'']),
           join (nl @ nl) (document_parts s @ [lit ''w'']) @ finished_marker]\<rparr>"
  apply (subst synthesis_loop.simps)
  apply (simp only: assms if_True)
  apply (cases s)
  apply (simp add: search_supabase_def embed_def one_word_services_def Let_def strip_def
      isspace_def split_def)
  done

lemma one_word_loop:
  "int (total_words s) + int k = target_words \<Longrightarrow>
   \<exists>s' calls'. synthesis_loop one_word_services topic target_words calls s =
       Some (Returned (), s', calls') \<and>
     document_parts s' = document_parts s @ replicate k (lit ''w'')"
proof (induction k arbitrary: s calls)
  case 0
  then show ?case by (subst synthesis_loop.simps) simp
next
  case (Suc k)
  then have lt: "int (total_words s) < target_words" by simp
  show ?case
    unfolding one_word_iteration [OF lt]
    using Suc.IH [of "\<lparr>section_no = section_no s + 1,
        document_parts = document_parts s @ [lit ''w''],
        total_words = total_words s + 1,
        section_text = lit ''w'',
        emitted = emitted s @
          [join (nl @ nl) (document_parts s @ [lit ''w'']),
           join (nl @ nl) (document_parts s @ [lit ''w'']) @ finished_marker]\<rparr>"] Suc.prems
    by (simp add: replicate_app_Cons_same)
qed

text \<open>
  Claim C1 says that the loop of \<^verbatim>\<open>generate_handbook_stream\<close> finalizes at most 25
  sections and ends after the 25th. The \<^verbatim>\<open>break\<close> of line 144 leaves the \<^verbatim>\<open>for\<close> loop
  only, and the \<^verbatim>\<open>while\<close> loop goes on until \<^verbatim>\<open>total_words\<close> reaches the target: when
  every completion streams the single chunk \<^verbatim>\<open>"w"\<close>, the loop returns with \<open>n\<close> parts
  in \<^verbatim>\<open>document_parts\<close> for every target \<open>n\<close>, and with 26 parts for the target 26.
\<close>

theorem more_than_25_sections:
  "map_option (\<lambda>r. (fst r, length (document_parts (fst (snd r)))))
       (synthesis_loop one_word_services topic (int n) calls initial_synthesis) =
     Some (Returned (), n) \<and>
   map_option (\<lambda>r. (fst r, length (document_parts (fst (snd r)))))
       (synthesis_loop one_word_services (lit ''x'') 26 [] initial_synthesis) =
     Some (Returned (), 26)"
proof -
  have g: "map_option (\<lambda>r. (fst r, length (document_parts (fst (snd r)))))
       (synthesis_loop one_word_services t (int k) c initial_synthesis) =
     Some (Returned (), k)" for t k c
    using one_word_loop [of initial_synthesis k "int k" t c]
    by (auto simp: initial_synthesis_def)
  show ?thesis using g [of topic n calls] g [of "lit ''x''" 26 "[]"] by simp
qed

text \<open>
  Claim C6 says that the combined output with the completion marker is yielded exactly
  once, after the loop has ended. The \<^verbatim>\<open>yield\<close> of line 146 belongs to the body of the
  \<^verbatim>\<open>while\<close> loop: for the topic \<^verbatim>\<open>"x"\<close> and the target 2, with completions that stream
  the single chunk \<^verbatim>\<open>"w"\<close>, the generator yields the marker twice, the first time
  before the second section is written; for the target 0 it yields nothing at all.
\<close>

theorem finished_marker_per_iteration:
  "map_option (\<lambda>r. (fst r, fst (snd r)))
       (generate_handbook_stream one_word_services [] (lit ''x'') 2) =
     Some (Returned (),
       [lit ''w'',
        lit ''w'' @ finished_marker,
        lit ''w'' @ nl @ nl @ lit ''w'',
        lit ''w'' @ nl @ nl @ lit ''w'' @ finished_marker]) \<and>
   generate_handbook_stream svc calls (lit ''x'') 0 = Some (Returned (), [], calls)"
proof
  have x: "strip (lit ''x'') \<noteq> []" by (simp add: strip_def isspace_def)
  have "map_option (\<lambda>r. (fst r, emitted (fst (snd r))))
       (synthesis_loop one_word_services (lit ''x'') 2 [] initial_synthesis) =
     Some (Returned (),
       [lit ''w'',
        lit ''w'' @ finished_marker,
        lit ''w'' @ nl @ nl @ lit ''w'',
        lit ''w'' @ nl @ nl @ lit ''w'' @ finished_marker])"
    apply (subst one_word_iteration, simp add: initial_synthesis_def)
    apply (subst one_word_iteration, simp add: initial_synthesis_def)
    apply (subst synthesis_loop.simps)
    apply (simp add: initial_synthesis_def)
    done
  then show "map_option (\<lambda>r. (fst r, fst (snd r)))
       (generate_handbook_stream one_word_services [] (lit ''x'') 2) =
     Some (Returned (),
       [lit ''w'',
        lit ''w'' @ finished_marker,
        lit ''w'' @ nl @ nl @ lit ''w'',
        lit ''w'' @ nl @ nl @ lit ''w'' @ finished_marker])"
    using x by (auto simp: generate_handbook_stream_def split: option.splits)
  show "generate_handbook_stream svc calls (lit ''x'') 0 = Some (Returned (), [], calls)"
    using x by (simp add: generate_handbook_stream_def synthesis_loop.simps initial_synthesis_def)
qed

section \<open>Ingestion\<close>

text \<open>
  Claim C9. When the text extracted from the file has no code point that is not
  whitespace, \<^verbatim>\<open>upload_pdf\<close> returns the no-extractable-text status with an empty preview.
  The state afterwards differs from the state before in \<^verbatim>\<open>PDF_TEXT\<close> only: \<^verbatim>\<open>CHUNKS\<close>
  is not assigned and the log of service calls is as it was, so nothing is chunked,
  embedded or upserted.
\<close>

theorem upload_no_text:
  "strip (extract_pdf_text f) = [] \<Longrightarrow>
   upload_pdf svc st (Some f) =
     Some ((no_text_status, []), st\<lparr>PDF_TEXT := extract_pdf_text f\<rparr>)"
  by (simp add: upload_pdf_def)

theorem upload_no_text_witness:
  "strip (extract_pdf_text (Pages [Page (Some (lit '' '')), Page None])) = [] \<and>
   upload_pdf one_word_services \<lparr>PDF_TEXT = lit ''old'', CHUNKS = [], call_log = []\<rparr>
       (Some (Pages [Page (Some (lit '' '')), Page None])) =
     Some ((no_text_status, []), \<lparr>PDF_TEXT = [32, 10], CHUNKS = [], call_log = []\<rparr>)"
proof -
  have b: "strip (extract_pdf_text (Pages [Page (Some (lit '' '')), Page None])) = []"
    by (simp add: strip_def isspace_def)
  show ?thesis
    using b upload_no_text [OF b, of one_word_services
        "\<lparr>PDF_TEXT = lit ''old'', CHUNKS = [], call_log = []\<rparr>"]
    by simp
qed

text \<open>
  Claim C10. Called with no file, \<^verbatim>\<open>upload_pdf\<close> returns the no-file status with an
  empty preview, and the state afterwards is the state before: \<^verbatim>\<open>PDF_TEXT\<close> and
  \<^verbatim>\<open>CHUNKS\<close> keep their values and no service is called.
\<close>

theorem upload_no_file:
  "upload_pdf svc st None = Some ((no_file_status, []), st)"
  by (simp add: upload_pdf_def)

section \<open>Conversation\<close>

text \<open>
  Claim C2 says that the message \<^verbatim>\<open>"create a handbook on   "\<close> gets one assistant turn
  that asks for a topic, and that synthesis is not started. The trigger
  \<^verbatim>\<open>"create a handbook"\<close> has 17 code points and line 177 cuts 15 off the message, so the
  topic of this message is \<^verbatim>\<open>"ok on"\<close>: whatever the services do, \<^verbatim>\<open>chat\<close> yields the
  history with the placeholder turn, runs \<^verbatim>\<open>generate_handbook_stream\<close> on \<^verbatim>\<open>"ok on"\<close>
  and yields one history per value of it; no turn asks for a topic.
\<close>

theorem blank_topic_message_starts_synthesis:
  "strip (drop 15 (lit ''create a handbook on   '')) = lit ''ok on'' \<and>
   chat ascii_lower svc calls (lit ''create a handbook on   '') [] =
     (case generate_handbook_stream svc calls (lit ''ok on'') 3000 of
        None \<Rightarrow> None
      | Some (e, partials, calls1) \<Rightarrow>
          Some (case e of Returned u \<Rightarrow> Returned None | Raised x \<Rightarrow> Raised x,
            [user (lit ''create a handbook on   ''), assistant (thinking_msg (lit ''ok on''))] #
              map (\<lambda>partial. [user (lit ''create a handbook on   ''),
                                 assistant (handbook_msg (lit ''ok on'') partial)]) partials,
            calls1))"
  by (simp add: chat_def ascii_lower_def strip_def isspace_def Let_def
      split: option.split prod.split)

text \<open>
  Claim C3 says that a question for which the search finds nothing gets the fixed
  not-found message as a new assistant turn. Lines 198 and 199 belong to the \<^verbatim>\<open>else\<close>
  branch, so for an empty result \<^verbatim>\<open>reply\<close> is assigned and dropped: for the message
  \<^verbatim>\<open>"hello"\<close>, the empty history and a store that matches no row, \<^verbatim>\<open>chat\<close> makes its
  two calls, yields no history and ends without a value.
\<close>

theorem qa_no_results_no_turn:
  "chat ascii_lower one_word_services [] (lit ''hello'') [] =
     Some (Returned None, [], [Embed (lit ''hello''), Match () 5])"
  by (simp add: chat_def ascii_lower_def strip_def isspace_def search_supabase_def embed_def
      one_word_services_def)

end
